theory Spec2Isabelle
  imports Complex_Main "HOL-Library.Multiset"
begin

section \<open>Data model of the scoring engine (src/lib/scoringUtils.ts)\<close>

text \<open>
  A JavaScript value as it can reach the scoring loop from a company row or a range
  table. A finite \<open>number\<close> is \<open>Number r\<close> with \<open>r\<close> a real: arithmetic on finite
  numbers is modelled exactly, without the rounding of IEEE doubles. The non-finite
  numbers and the values that are not numbers are separate constructors, since the
  code tests for them.
\<close>

datatype jsvalue =
    Number real
  | NaN
  | PosInfinity
  | NegInfinity
  | Undefined
  | Null
  | Str string

text \<open>The fields of \<open>MetricConfig\<close> that \<open>calculateScores\<close> reads.\<close>

record MetricConfig =
  label :: string
  tier :: string
  nested_path :: string
  higherIsBetter :: bool

text \<open>
  A company row: its identity and its metric values. The nested object is flattened to
  a map from the dotted path to the value stored there.
\<close>

record Company =
  company_id :: int
  company_name :: string
  nested :: "string \<rightharpoonup> jsvalue"

record ScoreComponent =
  metricLabel :: string
  rawValue :: "real option"
  normalizedValue :: "real option"
  weight :: real
  weightedScore :: real
  isIncluded :: bool
  isAccessible :: bool
  error :: "string option"

record CompanyScore =
  companyId :: int
  companyName :: string
  score :: "int option"
  breakdown :: "string \<rightharpoonup> ScoreComponent"

text \<open>
  \<open>Object.entries(weights)\<close>: the weight map as the list of its entries, in the order
  the loop visits them. The keys of an object are pairwise distinct; theorems that
  depend on it assume \<open>distinct (map fst weights)\<close>. A weight is a finite number (the
  scoring page sets it from a slider between 0 and 100).
\<close>

type_synonym Weights = "(string \<times> real) list"

type_synonym MetricFullRanges = "string \<rightharpoonup> (jsvalue \<times> jsvalue)"

type_synonym MetricConfigs = "string \<rightharpoonup> MetricConfig"

section \<open>Helpers imported from src/lib/utils.ts\<close>

text \<open>
  Modelled from the spec: \<open>isValidNumber\<close> of utils.ts, which is not among the sources.
  The spec's step 3 and 4 exclude a value that is "not a finite number".
\<close>

fun isValidNumber :: "jsvalue \<Rightarrow> bool" where
  "isValidNumber (Number r) = True"
| "isValidNumber _ = False"

text \<open>The real behind a value that passed \<open>isValidNumber\<close>; read only behind that test.\<close>

fun numberOf :: "jsvalue \<Rightarrow> real" where
  "numberOf (Number r) = r"
| "numberOf _ = 0"

text \<open>
  Modelled from the spec: \<open>getNestedValue\<close> of utils.ts, which is not among the sources.
  The spec's step 3 extracts the raw value via the metric's value path; a path that
  leads nowhere gives \<open>undefined\<close>.
\<close>

definition getNestedValue :: "Company \<Rightarrow> string \<Rightarrow> jsvalue" where
  "getNestedValue company path =
     (case nested company path of None \<Rightarrow> Undefined | Some v \<Rightarrow> v)"

section \<open>Tier access (lines 38, 39, 66, 67)\<close>

text \<open>
  The table \<open>{ free: 0, medium: 1, premium: 2 }\<close>, looked up by the tier's name among
  its own keys. A tier is kept as the string it is at run time, so that the two
  \<open>??\<close> defaults of the code are live branches of the model. The names that every
  JavaScript object inherits from its prototype (such as \<open>constructor\<close>) are not keys
  of the model's table: a lookup of any name but the three gives \<open>undefined\<close>.
\<close>

definition tierLevels :: "string \<rightharpoonup> int" where
  "tierLevels = [''free'' \<mapsto> 0, ''medium'' \<mapsto> 1, ''premium'' \<mapsto> 2]"

definition userTierLevel :: "string \<Rightarrow> int" where
  "userTierLevel currentUserTier =
     (case tierLevels currentUserTier of None \<Rightarrow> - 1 | Some l \<Rightarrow> l)"

definition requiredTierLevel :: "string \<Rightarrow> int" where
  "requiredTierLevel t = (case tierLevels t of None \<Rightarrow> 99 | Some l \<Rightarrow> l)"

definition tierAccess :: "string \<Rightarrow> string \<Rightarrow> bool" where
  "tierAccess currentUserTier t \<longleftrightarrow> userTierLevel currentUserTier \<ge> requiredTierLevel t"

section \<open>Normalisation (lines 90 to 104)\<close>

definition normalized :: "real \<Rightarrow> real \<Rightarrow> real \<Rightarrow> bool \<Rightarrow> real" where
  "normalized raw rmin rmax hib =
     (let rangeWidth = rmax - rmin;
          n0 = (if rangeWidth > 1 / 10 ^ 9 then (raw - rmin) / rangeWidth
                else if raw \<ge> rmin then 1 / 2
                else 0);
          n1 = max 0 (min 1 n0)
      in if \<not> hib then 1 - n1 else n1)"

section \<open>The loop over the weights (lines 46 to 113)\<close>

record LoopState =
  totalWeightedScore :: real
  totalEffectiveWeight :: real
  scoreBreakdown :: "string \<rightharpoonup> ScoreComponent"

definition record_component :: "LoopState \<Rightarrow> string \<Rightarrow> ScoreComponent \<Rightarrow> LoopState" where
  "record_component st db_column component =
     st\<lparr>scoreBreakdown := (scoreBreakdown st)(db_column \<mapsto> component)\<rparr>"

text \<open>
  One iteration of the inner loop. Every \<open>continue\<close> of the source is a branch that
  returns the state, with the component recorded where the source records it.
\<close>

definition processMetric ::
  "MetricFullRanges \<Rightarrow> MetricConfigs \<Rightarrow> string \<Rightarrow> Company \<Rightarrow>
     LoopState \<Rightarrow> string \<times> real \<Rightarrow> LoopState" where
  "processMetric fullRanges metricConfigs currentUserTier company st entry =
     (case entry of (db_column, w) \<Rightarrow>
        if w \<le> 0 then st
        else
          let component = \<lparr>
                metricLabel = (case metricConfigs db_column of
                                 None \<Rightarrow> db_column
                               | Some mc \<Rightarrow> if label mc = [] then db_column else label mc),
                rawValue = None, normalizedValue = None, weight = w,
                weightedScore = 0, isIncluded = False, isAccessible = False,
                error = None\<rparr>
          in case metricConfigs db_column of
               None \<Rightarrow>
                 record_component st db_column
                   (component\<lparr>error := Some ''Metric config not found''\<rparr>)
             | Some metricConfig \<Rightarrow>
                 let component = component\<lparr>isAccessible :=
                       userTierLevel currentUserTier \<ge> requiredTierLevel (tier metricConfig)\<rparr>
                 in if \<not> isAccessible component then
                      record_component st db_column
                        (component\<lparr>error :=
                           Some (''Requires '' @ tier metricConfig @ '' tier'')\<rparr>)
                    else
                      let raw = getNestedValue company (nested_path metricConfig);
                          component = component\<lparr>rawValue :=
                            (if isValidNumber raw then Some (numberOf raw) else None)\<rparr>;
                          range = fullRanges db_column
                      in case rawValue component of
                           None \<Rightarrow>
                             record_component st db_column
                               (component\<lparr>error := Some ''Null value''\<rparr>)
                         | Some rv \<Rightarrow>
                            (case range of
                               None \<Rightarrow>
                                 record_component st db_column
                                   (component\<lparr>error := Some ''Invalid/Missing range''\<rparr>)
                             | Some (r0, r1) \<Rightarrow>
                                 if \<not> isValidNumber r0 \<or> \<not> isValidNumber r1 then
                                   record_component st db_column
                                     (component\<lparr>error := Some ''Invalid/Missing range''\<rparr>)
                                 else
                                   let n = normalized rv (numberOf r0) (numberOf r1)
                                             (higherIsBetter metricConfig);
                                       component = component\<lparr>normalizedValue := Some n\<rparr>;
                                       component = component\<lparr>weightedScore := n * w\<rparr>;
                                       st = st\<lparr>totalWeightedScore :=
                                                 totalWeightedScore st + weightedScore component\<rparr>;
                                       st = st\<lparr>totalEffectiveWeight :=
                                                 totalEffectiveWeight st + w\<rparr>;
                                       component = component\<lparr>isIncluded := True\<rparr>
                                   in record_component st db_column component))"

section \<open>One company (lines 41 to 124) and the ranking (line 127)\<close>

definition initialState :: LoopState where
  "initialState =
     \<lparr>totalWeightedScore = 0, totalEffectiveWeight = 0, scoreBreakdown = Map.empty\<rparr>"

definition scoreCompany ::
  "Weights \<Rightarrow> MetricFullRanges \<Rightarrow> MetricConfigs \<Rightarrow> string \<Rightarrow> Company \<Rightarrow> CompanyScore" where
  "scoreCompany weights fullRanges metricConfigs currentUserTier company =
     (let st = foldl (processMetric fullRanges metricConfigs currentUserTier company)
                 initialState weights;
          finalScore = (if totalEffectiveWeight st > 0
                        then Some (totalWeightedScore st / totalEffectiveWeight st * 1000)
                        else None)
      in \<lparr>companyId = company_id company,
          companyName = company_name company,
          score = (case finalScore of None \<Rightarrow> None | Some f \<Rightarrow> Some (round f)),
          breakdown = scoreBreakdown st\<rparr>)"

text \<open>The operand \<open>x.score ?? -1\<close> of the comparator.\<close>

definition scoreOrMinusOne :: "CompanyScore \<Rightarrow> int" where
  "scoreOrMinusOne r = (case score r of None \<Rightarrow> - 1 | Some s \<Rightarrow> s)"

text \<open>
  \<open>results.sort((a, b) => (b.score ?? -1) - (a.score ?? -1))\<close>: the comparator is
  negative exactly when \<open>a\<close> has the larger operand, so the array is sorted by
  descending operand. \<open>Array.prototype.sort\<close> is stable, and so is \<open>sort_key\<close>.
\<close>

definition calculateScores ::
  "Company list \<Rightarrow> Weights \<Rightarrow> MetricFullRanges \<Rightarrow> MetricConfigs \<Rightarrow> string \<Rightarrow>
     CompanyScore list" where
  "calculateScores companies weights fullRanges metricConfigs currentUserTier =
     sort_key (\<lambda>r. - scoreOrMinusOne r)
       (map (scoreCompany weights fullRanges metricConfigs currentUserTier) companies)"

section \<open>Notions used to state the properties\<close>

text \<open>
  The component that one iteration records for a metric with a positive weight, read
  back from the state the iteration returns.
\<close>

definition metricComponent ::
  "MetricFullRanges \<Rightarrow> MetricConfigs \<Rightarrow> string \<Rightarrow> Company \<Rightarrow> string \<Rightarrow> real \<Rightarrow> ScoreComponent" where
  "metricComponent fullRanges metricConfigs currentUserTier company db_column w =
     the (scoreBreakdown
            (processMetric fullRanges metricConfigs currentUserTier company initialState
               (db_column, w)) db_column)"

text \<open>
  The gates of the loop body, in the order the code tests them: the metric definition
  is found, the tier is granted, the raw value is a finite number, the range is present
  with two finite bounds.
\<close>

definition gatesPassed ::
  "MetricFullRanges \<Rightarrow> MetricConfigs \<Rightarrow> string \<Rightarrow> Company \<Rightarrow> string \<Rightarrow> bool" where
  "gatesPassed fullRanges metricConfigs currentUserTier company db_column =
     (case metricConfigs db_column of
        None \<Rightarrow> False
      | Some mc \<Rightarrow>
          tierAccess currentUserTier (tier mc) \<and>
          isValidNumber (getNestedValue company (nested_path mc)) \<and>
          (case fullRanges db_column of
             None \<Rightarrow> False
           | Some (r0, r1) \<Rightarrow> isValidNumber r0 \<and> isValidNumber r1))"





text \<open>
  The reason recorded for a metric, by the first gate that fails; \<open>None\<close> when every
  gate passes.
\<close>

definition exclusionReason ::
  "MetricFullRanges \<Rightarrow> MetricConfigs \<Rightarrow> string \<Rightarrow> Company \<Rightarrow> string \<Rightarrow> string option" where
  "exclusionReason fullRanges metricConfigs currentUserTier company db_column =
     (case metricConfigs db_column of
        None \<Rightarrow> Some ''Metric config not found''
      | Some mc \<Rightarrow>
          if \<not> tierAccess currentUserTier (tier mc) then
            Some (''Requires '' @ tier mc @ '' tier'')
          else if \<not> isValidNumber (getNestedValue company (nested_path mc)) then
            Some ''Null value''
          else
            (case fullRanges db_column of
               None \<Rightarrow> Some ''Invalid/Missing range''
             | Some (r0, r1) \<Rightarrow>
                 if isValidNumber r0 \<and> isValidNumber r1 then None
                 else Some ''Invalid/Missing range''))"

text \<open>
  Two company rows with the same identity that agree on every value path but one.
\<close>

definition differOnlyAt :: "string \<Rightarrow> Company \<Rightarrow> Company \<Rightarrow> bool" where
  "differOnlyAt path a b \<longleftrightarrow>
     company_id a = company_id b \<and> company_name a = company_name b \<and>
     (\<forall>q. q \<noteq> path \<longrightarrow> nested a q = nested b q)"

section \<open>Example inputs\<close>

text \<open>
  A small catalog, range table, weight map and three companies, on which the theorems
  below are instantiated.
\<close>

definition exampleConfigs :: MetricConfigs where
  "exampleConfigs =
     [''revenue'' \<mapsto> \<lparr>label = ''Revenue'', tier = ''free'',
                       nested_path = ''financials.revenue_value'', higherIsBetter = True\<rparr>,
      ''aisc'' \<mapsto> \<lparr>label = ''AISC'', tier = ''medium'',
                    nested_path = ''costs.aisc_last_year'', higherIsBetter = False\<rparr>,
      ''reserves'' \<mapsto> \<lparr>label = ''Reserves'', tier = ''premium'',
                        nested_path = ''mineral_estimates.reserves_total_aueq_moz'',
                        higherIsBetter = True\<rparr>]"

definition exampleRanges :: MetricFullRanges where
  "exampleRanges =
     [''revenue'' \<mapsto> (Number 0, Number 100),
      ''aisc'' \<mapsto> (Number 500, Number 2500),
      ''reserves'' \<mapsto> (Number 10, Number 10)]"

definition exampleWeights :: Weights where
  "exampleWeights = [(''revenue'', 100), (''aisc'', 50), (''reserves'', 25), (''stale'', 10), (''off'', 0)]"

definition alpha :: Company where
  "alpha = \<lparr>company_id = 1, company_name = ''Alpha'',
             nested = [''financials.revenue_value'' \<mapsto> Number 50,
                       ''costs.aisc_last_year'' \<mapsto> Number 1000,
                       ''mineral_estimates.reserves_total_aueq_moz'' \<mapsto> Number 15]\<rparr>"

definition beta :: Company where
  "beta = \<lparr>company_id = 2, company_name = ''Beta'',
            nested = [''financials.revenue_value'' \<mapsto> Null,
                      ''costs.aisc_last_year'' \<mapsto> Number 1500]\<rparr>"

definition gamma :: Company where
  "gamma = \<lparr>company_id = 3, company_name = ''Gamma'',
             nested = [''financials.revenue_value'' \<mapsto> Number 90,
                       ''costs.aisc_last_year'' \<mapsto> NaN]\<rparr>"

text \<open>
  A catalog in which a premium metric and a free metric read the same value path.
\<close>

definition sharedPathConfigs :: MetricConfigs where
  "sharedPathConfigs =
     [''reserves_pro'' \<mapsto> \<lparr>label = ''Reserves (detailed)'', tier = ''premium'',
                            nested_path = ''mineral_estimates.reserves_total_aueq_moz'',
                            higherIsBetter = True\<rparr>,
      ''reserves'' \<mapsto> \<lparr>label = ''Reserves'', tier = ''free'',
                        nested_path = ''mineral_estimates.reserves_total_aueq_moz'',
                        higherIsBetter = True\<rparr>]"

definition sharedPathRanges :: MetricFullRanges where
  "sharedPathRanges =
     [''reserves_pro'' \<mapsto> (Number 0, Number 100), ''reserves'' \<mapsto> (Number 0, Number 100)]"

definition sharedPathWeights :: Weights where
  "sharedPathWeights = [(''reserves_pro'', 50), (''reserves'', 50)]"

definition delta :: Company where
  "delta = \<lparr>company_id = 4, company_name = ''Delta'',
             nested = [''mineral_estimates.reserves_total_aueq_moz'' \<mapsto> Number 10]\<rparr>"

section \<open>The loop body\<close>


lemma processMetric_skip: "w \<le> 0 \<Longrightarrow> processMetric R M t c st (k, w) = st"
  by (simp add: processMetric_def)

lemma processMetric_step:
  assumes "w > 0"
  shows "processMetric R M t c st (k, w) =
     st\<lparr>totalWeightedScore := totalWeightedScore st + weightedScore (metricComponent R M t c k w),
        totalEffectiveWeight := totalEffectiveWeight st +
           (if isIncluded (metricComponent R M t c k w) then w else 0),
        scoreBreakdown := (scoreBreakdown st)(k \<mapsto> metricComponent R M t c k w)\<rparr>"
  using assms
  by (simp add: processMetric_def metricComponent_def record_component_def Let_def initialState_def
      split: option.splits prod.splits)

lemma metricComponent_included:
  "w > 0 \<Longrightarrow> isIncluded (metricComponent R M t c k w) \<longleftrightarrow> gatesPassed R M t c k"
  by (simp add: processMetric_def metricComponent_def record_component_def Let_def initialState_def
      gatesPassed_def tierAccess_def split: option.splits prod.splits)

lemma metricComponent_weight:
  "w > 0 \<Longrightarrow> weight (metricComponent R M t c k w) = w"
  by (simp add: processMetric_def metricComponent_def record_component_def Let_def initialState_def
      split: option.splits prod.splits)

lemma metricComponent_excluded:
  "w > 0 \<Longrightarrow>
     isIncluded (metricComponent R M t c k w) \<or>
     weightedScore (metricComponent R M t c k w) = 0 \<and>
     normalizedValue (metricComponent R M t c k w) = None \<and>
     error (metricComponent R M t c k w) \<noteq> None"
  by (simp add: processMetric_def metricComponent_def record_component_def Let_def initialState_def
      split: option.splits prod.splits)


section \<open>The loop as a fold\<close>

lemma fold_breakdown:
  "distinct (map fst ws) \<Longrightarrow>
   scoreBreakdown (foldl (processMetric R M t c) st ws) k =
     (case map_of ws k of
        None \<Rightarrow> scoreBreakdown st k
      | Some w \<Rightarrow> if w > 0 then Some (metricComponent R M t c k w) else scoreBreakdown st k)"
proof (induction ws arbitrary: st)
  case Nil
  then show ?case by simp
next
  case (Cons e ws)
  obtain k' w' where e: "e = (k', w')" by (cases e)
  from Cons.prems have d: "distinct (map fst ws)" and nin: "k' \<notin> fst ` set ws"
    by (simp_all add: e)
  have none: "map_of ws k' = None" using nin by (simp add: map_of_eq_None_iff)
  show ?case
  proof (cases "w' > 0")
    case True
    then show ?thesis
      using Cons.IH [OF d] none by (simp add: e processMetric_step split: option.splits)
  next
    case False
    then show ?thesis
      using Cons.IH [OF d] none by (simp add: e processMetric_skip split: option.splits)
  qed
qed



section \<open>The result for one company\<close>

lemma scoreCompany_simps:
  "companyId (scoreCompany ws R M t c) = company_id c"
  "companyName (scoreCompany ws R M t c) = company_name c"
  "breakdown (scoreCompany ws R M t c) = scoreBreakdown (foldl (processMetric R M t c) initialState ws)"
  by (simp_all add: scoreCompany_def Let_def)


lemma scoreCompany_breakdown:
  assumes "distinct (map fst ws)" and "(k, w) \<in> set ws"
  shows "breakdown (scoreCompany ws R M t c) k =
           (if w > 0 then Some (metricComponent R M t c k w) else None)"
proof -
  have "map_of ws k = Some w" using assms by simp
  then show ?thesis
    using fold_breakdown [OF assms(1), of R M t c initialState k]
    by (simp add: scoreCompany_simps initialState_def)
qed

lemma scoreCompany_breakdown_dom:
  assumes "distinct (map fst ws)" and "breakdown (scoreCompany ws R M t c) k = Some sc"
  shows "\<exists>w. (k, w) \<in> set ws \<and> w > 0 \<and> sc = metricComponent R M t c k w"
proof (cases "map_of ws k")
  case None
  then show ?thesis
    using fold_breakdown [OF assms(1), of R M t c initialState k] assms(2)
    by (simp add: scoreCompany_simps initialState_def)
next
  case (Some w)
  then have "(k, w) \<in> set ws" by (rule map_of_SomeD)
  then show ?thesis
    using scoreCompany_breakdown [OF assms(1), of k w R M t c] assms(2)
    by (auto split: if_splits)
qed







section \<open>Evaluating the model on the examples\<close>

lemmas example_defs = exampleConfigs_def exampleRanges_def exampleWeights_def alpha_def beta_def gamma_def

lemmas model_defs = scoreCompany_def processMetric_def record_component_def initialState_def
  getNestedValue_def userTierLevel_def requiredTierLevel_def tierLevels_def normalized_def Let_def

section \<open>C1: the score is null or the rounded weighted average\<close>

lemma calculateScores_set:
  "set (calculateScores cs ws R M t) = scoreCompany ws R M t ` set cs"
  by (simp add: calculateScores_def)






section \<open>C3: tier access\<close>





section \<open>C6 and C7: normalisation\<close>

lemma metricComponent_included_eq:
  assumes "0 < w" "M k = Some mc" "tierAccess t (tier mc)"
    "getNestedValue c (nested_path mc) = Number raw" "R k = Some (Number rmin, Number rmax)"
  shows "metricComponent R M t c k w =
           \<lparr>metricLabel = (if label mc = [] then k else label mc),
            rawValue = Some raw,
            normalizedValue = Some (normalized raw rmin rmax (higherIsBetter mc)),
            weight = w,
            weightedScore = normalized raw rmin rmax (higherIsBetter mc) * w,
            isIncluded = True, isAccessible = True, error = None\<rparr>"
  using assms
  by (simp add: processMetric_def metricComponent_def record_component_def Let_def initialState_def
      tierAccess_def)




text \<open>
  Claim C7. When the width \<open>max - min\<close> of the range is at most \<open>1e-9\<close> (the bounds
  equal, or the minimum above the maximum), a higher-is-better metric normalises to
  one half when the raw value is at least the minimum and to 0 otherwise. The metric
  is still included: its weight is added to the running weight sum and its weighted
  contribution to the running weighted sum.
\<close>

theorem degenerate_range_half:
  assumes "rmax - rmin \<le> 1 / 10 ^ 9"
  shows "normalized raw rmin rmax True = (if raw \<ge> rmin then 1 / 2 else 0) \<and>
         (0 < w \<longrightarrow> metricConfigs k = Some mc \<longrightarrow> higherIsBetter mc \<longrightarrow>
          tierAccess currentUserTier (tier mc) \<longrightarrow>
          getNestedValue company (nested_path mc) = Number raw \<longrightarrow>
          fullRanges k = Some (Number rmin, Number rmax) \<longrightarrow>
            isIncluded (metricComponent fullRanges metricConfigs currentUserTier company k w) \<and>
            normalizedValue (metricComponent fullRanges metricConfigs currentUserTier company k w)
              = Some (if raw \<ge> rmin then 1 / 2 else 0) \<and>
            totalEffectiveWeight
              (processMetric fullRanges metricConfigs currentUserTier company st (k, w))
              = totalEffectiveWeight st + w \<and>
            totalWeightedScore
              (processMetric fullRanges metricConfigs currentUserTier company st (k, w))
              = totalWeightedScore st + (if raw \<ge> rmin then 1 / 2 else 0) * w)"
proof -
  have n: "normalized raw rmin rmax True = (if raw \<ge> rmin then 1 / 2 else 0)"
    using assms by (simp add: normalized_def Let_def)
  show ?thesis
  proof (intro conjI impI)
    show "normalized raw rmin rmax True = (if raw \<ge> rmin then 1 / 2 else 0)" by (rule n)
  next
    assume h: "0 < w" "metricConfigs k = Some mc" "higherIsBetter mc"
      "tierAccess currentUserTier (tier mc)"
      "getNestedValue company (nested_path mc) = Number raw"
      "fullRanges k = Some (Number rmin, Number rmax)"
    note e = metricComponent_included_eq [where M = metricConfigs and R = fullRanges and k = k, OF h(1) h(2) h(4) h(5) h(6)]
    show "isIncluded (metricComponent fullRanges metricConfigs currentUserTier company k w)"
      by (simp add: e)
    show "normalizedValue (metricComponent fullRanges metricConfigs currentUserTier company k w)
              = Some (if raw \<ge> rmin then 1 / 2 else 0)"
      using n h(3) by (simp add: e)
    show "totalEffectiveWeight
              (processMetric fullRanges metricConfigs currentUserTier company st (k, w))
              = totalEffectiveWeight st + w"
      by (simp add: processMetric_step [OF h(1)] e)
    show "totalWeightedScore
              (processMetric fullRanges metricConfigs currentUserTier company st (k, w))
              = totalWeightedScore st + (if raw \<ge> rmin then 1 / 2 else 0) * w"
      using n h(3) by (simp add: processMetric_step [OF h(1)] e)
  qed
qed

theorem degenerate_range_half_witness:
  "(10::real) - 10 \<le> 1 / 10 ^ 9 \<and>
   normalized 15 10 10 True = 1 / 2 \<and>
   isIncluded (metricComponent exampleRanges exampleConfigs ''premium'' alpha ''reserves'' 25) \<and>
   normalizedValue (metricComponent exampleRanges exampleConfigs ''premium'' alpha ''reserves'' 25)
     = Some (1 / 2) \<and>
   totalEffectiveWeight
     (processMetric exampleRanges exampleConfigs ''premium'' alpha initialState (''reserves'', 25)) = 25 \<and>
   totalWeightedScore
     (processMetric exampleRanges exampleConfigs ''premium'' alpha initialState (''reserves'', 25)) = 25 / 2"
proof -
  have w: "(10::real) - 10 \<le> 1 / 10 ^ 9" by simp
  have c: "exampleConfigs ''reserves'' = Some \<lparr>label = ''Reserves'', tier = ''premium'',
                        nested_path = ''mineral_estimates.reserves_total_aueq_moz'',
                        higherIsBetter = True\<rparr>"
    by (simp add: exampleConfigs_def)
  have a: "tierAccess ''premium'' ''premium''"
    by (simp add: tierAccess_def userTierLevel_def requiredTierLevel_def tierLevels_def)
  have v: "getNestedValue alpha ''mineral_estimates.reserves_total_aueq_moz'' = Number 15"
    by (simp add: getNestedValue_def alpha_def)
  have r: "exampleRanges ''reserves'' = Some (Number 10, Number 10)"
    by (simp add: exampleRanges_def)
  show ?thesis
    using degenerate_range_half [OF w, of 15 25 exampleConfigs "''reserves''" _ "''premium''" alpha
        exampleRanges initialState] w c a v r
    by (simp add: initialState_def)
qed

section \<open>C2: the ranking\<close>




lemma metricComponent_error:
  "0 < w \<Longrightarrow> error (metricComponent R M t c k w) = exclusionReason R M t c k"
  by (simp add: processMetric_def metricComponent_def record_component_def Let_def initialState_def
      exclusionReason_def tierAccess_def split: option.splits prod.splits)

lemma exclusionReason_None_iff:
  "exclusionReason R M t c k = None \<longleftrightarrow> gatesPassed R M t c k"
  by (simp add: exclusionReason_def gatesPassed_def split: option.splits prod.splits)

lemma metricComponent_excluded_raw:
  "0 < w \<Longrightarrow> isIncluded (metricComponent R M t c k w) \<or>
     normalizedValue (metricComponent R M t c k w) = None \<and>
     weightedScore (metricComponent R M t c k w) = 0"
  using metricComponent_excluded by blast

section \<open>C4, C5 and C8: the breakdown\<close>

lemma calculateScores_member:
  "c \<in> set cs \<Longrightarrow> scoreCompany ws R M t c \<in> set (calculateScores cs ws R M t)"
  by (simp add: calculateScores_set)

lemma fold_breakdown_kept:
  "scoreBreakdown st k \<noteq> None \<Longrightarrow>
     scoreBreakdown (foldl (processMetric R M t c) st ws) k \<noteq> None"
proof (induction ws arbitrary: st)
  case Nil
  then show ?case by simp
next
  case (Cons e ws)
  obtain k' w' where e: "e = (k', w')" by (cases e)
  have "scoreBreakdown (processMetric R M t c st e) k \<noteq> None"
    using Cons.prems by (cases "0 < w'") (simp_all add: e processMetric_step processMetric_skip)
  then show ?case using Cons.IH by simp
qed

lemma fold_breakdown_present:
  "(k, w) \<in> set ws \<Longrightarrow> 0 < w \<Longrightarrow>
     scoreBreakdown (foldl (processMetric R M t c) st ws) k \<noteq> None"
proof (induction ws arbitrary: st)
  case Nil
  then show ?case by simp
next
  case (Cons e ws)
  show ?case
  proof (cases "e = (k, w)")
    case True
    have "scoreBreakdown (processMetric R M t c st e) k \<noteq> None"
      using Cons.prems(2) by (simp add: True processMetric_step)
    then show ?thesis using fold_breakdown_kept by simp
  next
    case False
    then have "(k, w) \<in> set ws" using Cons.prems(1) by simp
    then show ?thesis using Cons.IH Cons.prems(2) by simp
  qed
qed

lemma fold_breakdown_origin:
  "scoreBreakdown (foldl (processMetric R M t c) st ws) k = Some sc \<Longrightarrow>
     scoreBreakdown st k = Some sc \<or>
     (\<exists>w. (k, w) \<in> set ws \<and> 0 < w \<and> sc = metricComponent R M t c k w)"
proof (induction ws arbitrary: st)
  case Nil
  then show ?case by simp
next
  case (Cons e ws)
  obtain k' w' where e: "e = (k', w')" by (cases e)
  from Cons.IH [OF Cons.prems [simplified]]
  consider "scoreBreakdown (processMetric R M t c st e) k = Some sc"
    | "\<exists>w. (k, w) \<in> set ws \<and> 0 < w \<and> sc = metricComponent R M t c k w"
    by blast
  then show ?case
  proof cases
    case 1
    then show ?thesis
      by (cases "0 < w'") (auto simp: e processMetric_step processMetric_skip split: if_splits)
  next
    case 2
    then show ?thesis by auto
  qed
qed

text \<open>
  Claim C4. For every company and every component of its breakdown, \<open>isIncluded\<close> is
  true if and only if the component passed every gate (definition found, tier granted,
  raw value a finite number, range present with finite bounds) and its weight is
  positive. A metric whose weight is zero or negative has no component at all, so it
  never appears as included.
\<close>

theorem included_iff_all_gates_and_positive_weight:
  assumes d: "distinct (map fst weights)" and c: "company \<in> set companies"
  shows "scoreCompany weights fullRanges metricConfigs currentUserTier company
           \<in> set (calculateScores companies weights fullRanges metricConfigs currentUserTier) \<and>
         (\<forall>k sc. breakdown (scoreCompany weights fullRanges metricConfigs currentUserTier company) k
                    = Some sc \<longrightarrow>
            (isIncluded sc \<longleftrightarrow>
               gatesPassed fullRanges metricConfigs currentUserTier company k \<and> 0 < weight sc)) \<and>
         (\<forall>k w. (k, w) \<in> set weights \<longrightarrow> w \<le> 0 \<longrightarrow>
            breakdown (scoreCompany weights fullRanges metricConfigs currentUserTier company) k = None)"
proof (intro conjI allI impI)
  show "scoreCompany weights fullRanges metricConfigs currentUserTier company
           \<in> set (calculateScores companies weights fullRanges metricConfigs currentUserTier)"
    using c by (rule calculateScores_member)
next
  fix k sc
  assume "breakdown (scoreCompany weights fullRanges metricConfigs currentUserTier company) k = Some sc"
  then obtain w where "0 < w" "sc = metricComponent fullRanges metricConfigs currentUserTier company k w"
    using scoreCompany_breakdown_dom [OF d] by blast
  then show "isIncluded sc \<longleftrightarrow>
               gatesPassed fullRanges metricConfigs currentUserTier company k \<and> 0 < weight sc"
    by (simp add: metricComponent_included metricComponent_weight)
next
  fix k w
  assume "(k, w) \<in> set weights" "w \<le> 0"
  then show "breakdown (scoreCompany weights fullRanges metricConfigs currentUserTier company) k = None"
    using scoreCompany_breakdown [OF d, of k w] by simp
qed

theorem included_iff_all_gates_and_positive_weight_witness:
  "distinct (map fst exampleWeights) \<and> alpha \<in> set [alpha, beta] \<and>
   scoreCompany exampleWeights exampleRanges exampleConfigs ''medium'' alpha
     \<in> set (calculateScores [alpha, beta] exampleWeights exampleRanges exampleConfigs ''medium'') \<and>
   gatesPassed exampleRanges exampleConfigs ''medium'' alpha ''aisc'' \<and>
   isIncluded (the (breakdown (scoreCompany exampleWeights exampleRanges exampleConfigs ''medium'' alpha) ''aisc'')) \<and>
   \<not> gatesPassed exampleRanges exampleConfigs ''medium'' alpha ''reserves'' \<and>
   \<not> isIncluded (the (breakdown (scoreCompany exampleWeights exampleRanges exampleConfigs ''medium'' alpha) ''reserves'')) \<and>
   (''off'', 0) \<in> set exampleWeights \<and>
   breakdown (scoreCompany exampleWeights exampleRanges exampleConfigs ''medium'' alpha) ''off'' = None"
proof -
  let ?r = "scoreCompany exampleWeights exampleRanges exampleConfigs ''medium'' alpha"
  have d: "distinct (map fst exampleWeights)" by (simp add: exampleWeights_def)
  have c: "alpha \<in> set [alpha, beta]" by simp
  have g1: "gatesPassed exampleRanges exampleConfigs ''medium'' alpha ''aisc''"
    by (simp add: gatesPassed_def tierAccess_def example_defs model_defs)
  have g2: "\<not> gatesPassed exampleRanges exampleConfigs ''medium'' alpha ''reserves''"
    by (simp add: gatesPassed_def tierAccess_def example_defs model_defs)
  have off: "(''off'', 0) \<in> set exampleWeights" by (simp add: exampleWeights_def)
  have b1: "breakdown ?r ''aisc'' = Some (metricComponent exampleRanges exampleConfigs ''medium'' alpha ''aisc'' 50)"
    using scoreCompany_breakdown [OF d, of "''aisc''" 50] by (simp add: exampleWeights_def)
  have b2: "breakdown ?r ''reserves'' = Some (metricComponent exampleRanges exampleConfigs ''medium'' alpha ''reserves'' 25)"
    using scoreCompany_breakdown [OF d, of "''reserves''" 25] by (simp add: exampleWeights_def)
  show ?thesis
    using included_iff_all_gates_and_positive_weight [OF d c, of exampleRanges exampleConfigs "''medium''"]
      d c g1 g2 off b1 b2 metricComponent_weight [of 50 exampleRanges exampleConfigs "''medium''" alpha "''aisc''"]
    by simp
qed

text \<open>
  Claim C5. When the supplied weights lie between 0 and 100, the breakdown of every
  company has a component for every metric key whose weight is not zero, whether or
  not the metric was included; a component that is not included carries a reason.
\<close>

theorem breakdown_covers_nonzero_weights:
  assumes rng: "\<forall>(k, w) \<in> set weights. 0 \<le> w \<and> w \<le> 100"
    and kw: "(k, w) \<in> set weights" and nz: "w \<noteq> 0" and c: "company \<in> set companies"
  shows "scoreCompany weights fullRanges metricConfigs currentUserTier company
           \<in> set (calculateScores companies weights fullRanges metricConfigs currentUserTier) \<and>
         (\<exists>sc. breakdown (scoreCompany weights fullRanges metricConfigs currentUserTier company) k
                  = Some sc \<and>
               (isIncluded sc \<or> error sc \<noteq> None))"
proof
  show "scoreCompany weights fullRanges metricConfigs currentUserTier company
           \<in> set (calculateScores companies weights fullRanges metricConfigs currentUserTier)"
    using c by (rule calculateScores_member)
next
  let ?st = "foldl (processMetric fullRanges metricConfigs currentUserTier company) initialState weights"
  have pos: "0 < w" using rng kw nz by force
  then have "scoreBreakdown ?st k \<noteq> None"
    using kw by (intro fold_breakdown_present)
  then obtain sc where sc: "scoreBreakdown ?st k = Some sc" by blast
  then have "\<exists>w'. 0 < w' \<and> sc = metricComponent fullRanges metricConfigs currentUserTier company k w'"
    using fold_breakdown_origin [OF sc] by (auto simp: initialState_def)
  then have "isIncluded sc \<or> error sc \<noteq> None"
    using metricComponent_excluded by blast
  then show "\<exists>sc. breakdown (scoreCompany weights fullRanges metricConfigs currentUserTier company) k
                  = Some sc \<and> (isIncluded sc \<or> error sc \<noteq> None)"
    using sc by (simp add: scoreCompany_simps)
qed

theorem breakdown_covers_nonzero_weights_witness:
  "(''stale'', 10) \<in> set exampleWeights \<and> (10::real) \<noteq> 0 \<and> beta \<in> set [alpha, beta] \<and>
   scoreCompany exampleWeights exampleRanges exampleConfigs ''free'' beta
     \<in> set (calculateScores [alpha, beta] exampleWeights exampleRanges exampleConfigs ''free'') \<and>
   breakdown (scoreCompany exampleWeights exampleRanges exampleConfigs ''free'' beta) ''stale''
     \<noteq> None \<and>
   error (the (breakdown (scoreCompany exampleWeights exampleRanges exampleConfigs ''free'' beta) ''stale''))
     = Some ''Metric config not found''"
proof -
  have rng: "\<forall>(k, w) \<in> set exampleWeights. 0 \<le> w \<and> w \<le> 100"
    by (simp add: exampleWeights_def)
  have kw: "(''stale'', 10) \<in> set exampleWeights" by (simp add: exampleWeights_def)
  have nz: "(10::real) \<noteq> 0" by simp
  have c: "beta \<in> set [alpha, beta]" by simp
  have e: "error (the (breakdown (scoreCompany exampleWeights exampleRanges exampleConfigs ''free'' beta) ''stale''))
     = Some ''Metric config not found''"
    by (simp add: example_defs model_defs)
  show ?thesis
    using breakdown_covers_nonzero_weights [OF rng kw nz c, of exampleRanges exampleConfigs "''free''"]
      kw c e by auto
qed

text \<open>
  Claim C8. \<open>calculateScores\<close> returns exactly one result for every input company, with
  that company's identity. The source has no \<open>throw\<close> and guards every dereference
  (\<open>metricConfig?.label\<close>, \<open>!metricConfig\<close>, \<open>!range\<close>), so the model is a total
  function with no failure branch. Every anomaly of the data is recorded in the
  component of the metric: its \<open>error\<close> is the reason of the first gate that failed
  (unknown metric key, tier denied, value not a finite number, range missing or with a
  bound that is not finite), and the component is included exactly when there is none.
\<close>

theorem one_result_per_company_anomalies_recorded:
  "length (calculateScores companies weights fullRanges metricConfigs currentUserTier)
     = length companies \<and>
   mset (calculateScores companies weights fullRanges metricConfigs currentUserTier)
     = mset (map (scoreCompany weights fullRanges metricConfigs currentUserTier) companies) \<and>
   mset (map (\<lambda>r. (companyId r, companyName r))
           (calculateScores companies weights fullRanges metricConfigs currentUserTier))
     = mset (map (\<lambda>c. (company_id c, company_name c)) companies) \<and>
   (\<forall>company k w. company \<in> set companies \<longrightarrow> (k, w) \<in> set weights \<longrightarrow> 0 < w \<longrightarrow>
      (\<exists>sc. breakdown (scoreCompany weights fullRanges metricConfigs currentUserTier company) k
               = Some sc \<and>
            error sc = exclusionReason fullRanges metricConfigs currentUserTier company k \<and>
            (isIncluded sc \<longleftrightarrow>
               exclusionReason fullRanges metricConfigs currentUserTier company k = None)))"
proof (intro conjI allI impI)
  let ?out = "calculateScores companies weights fullRanges metricConfigs currentUserTier"
  show "length ?out = length companies"
    by (simp add: calculateScores_def)
  show m: "mset ?out = mset (map (scoreCompany weights fullRanges metricConfigs currentUserTier) companies)"
    by (simp add: calculateScores_def)
  have "mset (map (\<lambda>r. (companyId r, companyName r)) ?out)
          = image_mset (\<lambda>r. (companyId r, companyName r)) (mset ?out)"
    by simp
  also have "\<dots> = image_mset (\<lambda>r. (companyId r, companyName r))
                      (mset (map (scoreCompany weights fullRanges metricConfigs currentUserTier) companies))"
    by (simp only: m)
  also have "\<dots> = mset (map (\<lambda>r. (companyId r, companyName r))
                       (map (scoreCompany weights fullRanges metricConfigs currentUserTier) companies))"
    by (simp only: mset_map)
  also have "\<dots> = mset (map (\<lambda>c. (company_id c, company_name c)) companies)"
    by (simp add: scoreCompany_simps comp_def)
  finally show "mset (map (\<lambda>r. (companyId r, companyName r)) ?out)
     = mset (map (\<lambda>c. (company_id c, company_name c)) companies)" .
next
  fix company k w
  assume kw: "(k, w) \<in> set weights" and pos: "0 < w"
  let ?st = "foldl (processMetric fullRanges metricConfigs currentUserTier company) initialState weights"
  have "scoreBreakdown ?st k \<noteq> None"
    using kw pos by (intro fold_breakdown_present)
  then obtain sc where sc: "scoreBreakdown ?st k = Some sc" by blast
  then obtain w' where w': "0 < w'"
    "sc = metricComponent fullRanges metricConfigs currentUserTier company k w'"
    using fold_breakdown_origin [OF sc] by (auto simp: initialState_def)
  have "error sc = exclusionReason fullRanges metricConfigs currentUserTier company k"
    using w' by (simp add: metricComponent_error)
  moreover have "isIncluded sc \<longleftrightarrow>
       exclusionReason fullRanges metricConfigs currentUserTier company k = None"
    using w' by (simp add: metricComponent_included exclusionReason_None_iff)
  ultimately show "\<exists>sc. breakdown (scoreCompany weights fullRanges metricConfigs currentUserTier company) k
               = Some sc \<and>
            error sc = exclusionReason fullRanges metricConfigs currentUserTier company k \<and>
            (isIncluded sc \<longleftrightarrow>
               exclusionReason fullRanges metricConfigs currentUserTier company k = None)"
    using sc by (simp add: scoreCompany_simps)
qed

theorem one_result_per_company_anomalies_recorded_witness:
  "length (calculateScores [alpha, beta, gamma] exampleWeights exampleRanges exampleConfigs ''medium'') = 3 \<and>
   map companyName (calculateScores [alpha, beta, gamma] exampleWeights exampleRanges exampleConfigs ''medium'')
     = [''Gamma'', ''Alpha'', ''Beta''] \<and>
   gamma \<in> set [alpha, beta, gamma] \<and> (''aisc'', 50) \<in> set exampleWeights \<and> (0::real) < 50 \<and>
   exclusionReason exampleRanges exampleConfigs ''medium'' gamma ''aisc'' = Some ''Null value'' \<and>
   error (the (breakdown (scoreCompany exampleWeights exampleRanges exampleConfigs ''medium'' gamma) ''aisc''))
     = Some ''Null value'' \<and>
   \<not> isIncluded (the (breakdown (scoreCompany exampleWeights exampleRanges exampleConfigs ''medium'' gamma) ''aisc''))"
proof -
  have n: "map companyName (calculateScores [alpha, beta, gamma] exampleWeights exampleRanges exampleConfigs ''medium'')
     = [''Gamma'', ''Alpha'', ''Beta'']"
    by (simp add: calculateScores_def scoreOrMinusOne_def example_defs model_defs round_def)
  have c: "gamma \<in> set [alpha, beta, gamma]" by simp
  have kw: "(''aisc'', 50) \<in> set exampleWeights" by (simp add: exampleWeights_def)
  have x: "exclusionReason exampleRanges exampleConfigs ''medium'' gamma ''aisc'' = Some ''Null value''"
    by (simp add: exclusionReason_def tierAccess_def example_defs model_defs)
  have p: "0 < (50::real)" by simp
  note t = one_result_per_company_anomalies_recorded
        [of "[alpha, beta, gamma]" exampleWeights exampleRanges exampleConfigs "''medium''"]
  from t have l: "length (calculateScores [alpha, beta, gamma] exampleWeights exampleRanges
                     exampleConfigs ''medium'') = 3"
    by simp
  from t have "\<exists>sc. breakdown (scoreCompany exampleWeights exampleRanges exampleConfigs ''medium'' gamma)
               ''aisc'' = Some sc \<and>
            error sc = exclusionReason exampleRanges exampleConfigs ''medium'' gamma ''aisc'' \<and>
            (isIncluded sc \<longleftrightarrow>
               exclusionReason exampleRanges exampleConfigs ''medium'' gamma ''aisc'' = None)"
    using c kw p by blast
  then show ?thesis
    using l n c kw x by auto
qed

section \<open>C9: the order of the weight map\<close>





section \<open>C10: values behind a denied tier\<close>

lemma processMetric_differOnlyAt:
  assumes ab: "differOnlyAt p a b"
    and den: "0 < w \<longrightarrow> (\<forall>mc. M k = Some mc \<longrightarrow> nested_path mc = p \<longrightarrow> \<not> tierAccess t (tier mc))"
  shows "processMetric R M t a st (k, w) = processMetric R M t b st (k, w)"
proof (cases "0 < w")
  case False
  then show ?thesis by (simp add: processMetric_def)
next
  case w: True
  show ?thesis
  proof (cases "M k")
    case None
    then show ?thesis by (simp add: processMetric_def)
  next
    case (Some mc)
    show ?thesis
    proof (cases "tierAccess t (tier mc)")
      case False
      then show ?thesis
        using Some by (simp add: processMetric_def Let_def tierAccess_def)
    next
      case True
      then have "nested_path mc \<noteq> p" using den w Some by blast
      then have "getNestedValue a (nested_path mc) = getNestedValue b (nested_path mc)"
        using ab by (simp add: differOnlyAt_def getNestedValue_def)
      then show ?thesis
        using Some by (simp add: processMetric_def Let_def)
    qed
  qed
qed

lemma foldl_processMetric_differOnlyAt:
  assumes ab: "differOnlyAt p a b"
    and den: "\<forall>(k, w) \<in> set ws. 0 < w \<longrightarrow>
                (\<forall>mc. M k = Some mc \<longrightarrow> nested_path mc = p \<longrightarrow> \<not> tierAccess t (tier mc))"
  shows "foldl (processMetric R M t a) st ws = foldl (processMetric R M t b) st ws"
  using den
proof (induction ws arbitrary: st)
  case Nil
  then show ?case by simp
next
  case (Cons e ws)
  obtain k w where e: "e = (k, w)" by (cases e)
  have "processMetric R M t a st e = processMetric R M t b st e"
    unfolding e using Cons.prems by (intro processMetric_differOnlyAt [OF ab]) (simp add: e)
  then show ?case using Cons.IH Cons.prems by simp
qed

lemma scoreCompany_differOnlyAt:
  assumes ab: "differOnlyAt p a b"
    and den: "\<forall>(k, w) \<in> set ws. 0 < w \<longrightarrow>
                (\<forall>mc. M k = Some mc \<longrightarrow> nested_path mc = p \<longrightarrow> \<not> tierAccess t (tier mc))"
  shows "scoreCompany ws R M t a = scoreCompany ws R M t b"
  using ab by (simp add: scoreCompany_def foldl_processMetric_differOnlyAt [OF ab den] differOnlyAt_def)

lemma metricComponent_no_access:
  assumes "0 < w" and "M k = None \<or> (\<exists>mc. M k = Some mc \<and> \<not> tierAccess t (tier mc))"
  shows "rawValue (metricComponent R M t c k w) = None \<and>
         normalizedValue (metricComponent R M t c k w) = None \<and>
         \<not> isIncluded (metricComponent R M t c k w)"
  using assms
  by (auto simp add: processMetric_def metricComponent_def record_component_def Let_def initialState_def
      tierAccess_def)

text \<open>
  Claim C10, as amended. Let \<open>path\<close> be a value path such that every metric with a
  positive weight whose definition reads \<open>path\<close> is denied to the viewer. Then two
  inputs whose companies differ only in the value at \<open>path\<close> give the same output:
  the same scores, the same ordering, the same breakdowns. And the component recorded
  for a metric that is denied to the viewer, or has no definition, has a null
  \<open>rawValue\<close> and no \<open>normalizedValue\<close>, and is not included.
\<close>

theorem denied_values_never_influence:
  assumes comp: "list_all2 (differOnlyAt path) companies companies'"
    and den: "\<forall>(k, w) \<in> set weights. 0 < w \<longrightarrow>
                (\<forall>mc. metricConfigs k = Some mc \<longrightarrow> nested_path mc = path \<longrightarrow>
                   \<not> tierAccess currentUserTier (tier mc))"
  shows "calculateScores companies weights fullRanges metricConfigs currentUserTier
           = calculateScores companies' weights fullRanges metricConfigs currentUserTier \<and>
         (\<forall>company k w. (k, w) \<in> set weights \<longrightarrow> 0 < w \<longrightarrow>
            (metricConfigs k = None \<or>
             (\<exists>mc. metricConfigs k = Some mc \<and> \<not> tierAccess currentUserTier (tier mc))) \<longrightarrow>
            (\<exists>sc. breakdown (scoreCompany weights fullRanges metricConfigs currentUserTier company) k
                     = Some sc \<and>
                  rawValue sc = None \<and> normalizedValue sc = None \<and> \<not> isIncluded sc))"
proof (intro conjI allI impI)
  have "map (scoreCompany weights fullRanges metricConfigs currentUserTier) companies
          = map (scoreCompany weights fullRanges metricConfigs currentUserTier) companies'"
    using comp
  proof (induction rule: list_all2_induct)
    case Nil
    then show ?case by simp
  next
    case (Cons a as b bs)
    then show ?case using scoreCompany_differOnlyAt [OF Cons.hyps(1) den] by simp
  qed
  then show "calculateScores companies weights fullRanges metricConfigs currentUserTier
           = calculateScores companies' weights fullRanges metricConfigs currentUserTier"
    by (simp add: calculateScores_def)
next
  fix company k w
  assume kw: "(k, w) \<in> set weights" and pos: "0 < w"
    and no: "metricConfigs k = None \<or>
             (\<exists>mc. metricConfigs k = Some mc \<and> \<not> tierAccess currentUserTier (tier mc))"
  let ?st = "foldl (processMetric fullRanges metricConfigs currentUserTier company) initialState weights"
  have "scoreBreakdown ?st k \<noteq> None"
    using kw pos by (intro fold_breakdown_present)
  then obtain sc where sc: "scoreBreakdown ?st k = Some sc" by blast
  then obtain w' where w': "0 < w'"
    "sc = metricComponent fullRanges metricConfigs currentUserTier company k w'"
    using fold_breakdown_origin [OF sc] by (auto simp: initialState_def)
  have "rawValue sc = None \<and> normalizedValue sc = None \<and> \<not> isIncluded sc"
    unfolding w'(2) using w'(1) no by (rule metricComponent_no_access)
  then show "\<exists>sc. breakdown (scoreCompany weights fullRanges metricConfigs currentUserTier company) k
                     = Some sc \<and>
                  rawValue sc = None \<and> normalizedValue sc = None \<and> \<not> isIncluded sc"
    using sc by (simp add: scoreCompany_simps)
qed

theorem denied_values_never_influence_witness:
  "differOnlyAt ''mineral_estimates.reserves_total_aueq_moz'' alpha
     (alpha\<lparr>nested := (nested alpha)(''mineral_estimates.reserves_total_aueq_moz'' \<mapsto> Number 99)\<rparr>) \<and>
   \<not> tierAccess ''medium'' ''premium'' \<and>
   calculateScores [alpha] exampleWeights exampleRanges exampleConfigs ''medium''
     = calculateScores
         [alpha\<lparr>nested := (nested alpha)(''mineral_estimates.reserves_total_aueq_moz'' \<mapsto> Number 99)\<rparr>]
         exampleWeights exampleRanges exampleConfigs ''medium'' \<and>
   (''reserves'', 25) \<in> set exampleWeights \<and>
   breakdown (scoreCompany exampleWeights exampleRanges exampleConfigs ''medium'' alpha) ''reserves''
     \<noteq> None \<and>
   rawValue (the (breakdown (scoreCompany exampleWeights exampleRanges exampleConfigs ''medium'' alpha)
                    ''reserves'')) = None \<and>
   normalizedValue (the (breakdown (scoreCompany exampleWeights exampleRanges exampleConfigs ''medium'' alpha)
                    ''reserves'')) = None"
proof -
  let ?p = "''mineral_estimates.reserves_total_aueq_moz''"
  let ?alpha' = "alpha\<lparr>nested := (nested alpha)(?p \<mapsto> Number 99)\<rparr>"
  have ab: "differOnlyAt ?p alpha ?alpha'"
    by (simp add: differOnlyAt_def)
  have comp: "list_all2 (differOnlyAt ?p) [alpha] [?alpha']"
    using ab by simp
  have na: "\<not> tierAccess ''medium'' ''premium''"
    by (simp add: tierAccess_def userTierLevel_def requiredTierLevel_def tierLevels_def)
  have den: "\<forall>(k, w) \<in> set exampleWeights. 0 < w \<longrightarrow>
                (\<forall>mc. exampleConfigs k = Some mc \<longrightarrow> nested_path mc = ?p \<longrightarrow>
                   \<not> tierAccess ''medium'' (tier mc))"
    using na by (auto simp: exampleWeights_def exampleConfigs_def)
  have kw: "(''reserves'', 25) \<in> set exampleWeights" by (simp add: exampleWeights_def)
  have p: "0 < (25::real)" by simp
  have c: "\<exists>mc. exampleConfigs ''reserves'' = Some mc \<and> \<not> tierAccess ''medium'' (tier mc)"
    using na by (simp add: exampleConfigs_def)
  note t = denied_values_never_influence [OF comp den, of exampleRanges]
  from t have e: "calculateScores [alpha] exampleWeights exampleRanges exampleConfigs ''medium''
     = calculateScores [?alpha'] exampleWeights exampleRanges exampleConfigs ''medium''"
    by blast
  from t have "\<exists>sc. breakdown (scoreCompany exampleWeights exampleRanges exampleConfigs ''medium'' alpha)
                     ''reserves'' = Some sc \<and>
                  rawValue sc = None \<and> normalizedValue sc = None \<and> \<not> isIncluded sc"
    using kw p c by blast
  then show ?thesis
    using ab na e kw by auto
qed

text \<open>
  Claim C10, as stated, fails when a metric that the viewer can access reads the same
  value path as the denied one: the gate is per metric key, not per value path. Here
  \<open>reserves_pro\<close> (premium) is denied to a free viewer, the two inputs differ only at
  its value path, and the score changes from 100 to 900 through \<open>reserves\<close> (free),
  which reads the same path.
\<close>

theorem denied_values_shared_path_counterexample:
  "sharedPathConfigs ''reserves_pro''
     = Some \<lparr>label = ''Reserves (detailed)'', tier = ''premium'',
             nested_path = ''mineral_estimates.reserves_total_aueq_moz'',
             higherIsBetter = True\<rparr> \<and>
   \<not> tierAccess ''free'' ''premium'' \<and>
   differOnlyAt ''mineral_estimates.reserves_total_aueq_moz'' delta
     (delta\<lparr>nested := (nested delta)(''mineral_estimates.reserves_total_aueq_moz'' \<mapsto> Number 90)\<rparr>) \<and>
   map score (calculateScores [delta] sharedPathWeights sharedPathRanges sharedPathConfigs ''free'')
     = [Some 100] \<and>
   map score
     (calculateScores
        [delta\<lparr>nested := (nested delta)(''mineral_estimates.reserves_total_aueq_moz'' \<mapsto> Number 90)\<rparr>]
        sharedPathWeights sharedPathRanges sharedPathConfigs ''free'')
     = [Some 900] \<and>
   calculateScores [delta] sharedPathWeights sharedPathRanges sharedPathConfigs ''free''
     \<noteq> calculateScores
         [delta\<lparr>nested := (nested delta)(''mineral_estimates.reserves_total_aueq_moz'' \<mapsto> Number 90)\<rparr>]
         sharedPathWeights sharedPathRanges sharedPathConfigs ''free''"
proof -
  let ?p = "''mineral_estimates.reserves_total_aueq_moz''"
  let ?delta' = "delta\<lparr>nested := (nested delta)(?p \<mapsto> Number 90)\<rparr>"
  have c: "sharedPathConfigs ''reserves_pro''
     = Some \<lparr>label = ''Reserves (detailed)'', tier = ''premium'',
             nested_path = ?p, higherIsBetter = True\<rparr>"
    by (simp add: sharedPathConfigs_def)
  have na: "\<not> tierAccess ''free'' ''premium''"
    by (simp add: tierAccess_def userTierLevel_def requiredTierLevel_def tierLevels_def)
  have ab: "differOnlyAt ?p delta ?delta'"
    by (simp add: differOnlyAt_def)
  have s1: "map score (calculateScores [delta] sharedPathWeights sharedPathRanges sharedPathConfigs ''free'')
     = [Some 100]"
    by (simp add: calculateScores_def sharedPathWeights_def sharedPathRanges_def sharedPathConfigs_def
        delta_def model_defs)
  have s2: "map score (calculateScores [?delta'] sharedPathWeights sharedPathRanges sharedPathConfigs ''free'')
     = [Some 900]"
    by (simp add: calculateScores_def sharedPathWeights_def sharedPathRanges_def sharedPathConfigs_def
        delta_def model_defs)
  have ne: "calculateScores [delta] sharedPathWeights sharedPathRanges sharedPathConfigs ''free''
     \<noteq> calculateScores [?delta'] sharedPathWeights sharedPathRanges sharedPathConfigs ''free''"
  proof
    assume "calculateScores [delta] sharedPathWeights sharedPathRanges sharedPathConfigs ''free''
     = calculateScores [?delta'] sharedPathWeights sharedPathRanges sharedPathConfigs ''free''"
    then have "map score (calculateScores [delta] sharedPathWeights sharedPathRanges sharedPathConfigs ''free'')
     = map score (calculateScores [?delta'] sharedPathWeights sharedPathRanges sharedPathConfigs ''free'')"
      by simp
    then show False unfolding s1 s2 by simp
  qed
  show ?thesis using c na ab s1 s2 ne by blast
qed

end
